theory Spec2Isabelle
  imports Main
begin

section \<open>The API-key gateway of \<^verbatim>\<open>src/api.py\<close>\<close>

text \<open>
  The program keeps two SQLite tables and serves HTTP routes over them. The model below
  follows the source function by function. The database is an explicit state that every
  function takes and returns; an exception of the source is the \<open>Inl\<close> branch of a sum.
  What the source reads from outside (the wall clock, the random token, the Stripe
  library's signature check) is an argument of the function that reads it.
\<close>

subsection \<open>Configuration (module-level constants read from the environment)\<close>

record config =
  WEBHOOK_SECRET :: string
  FREE_LIMIT_PER_DAY :: int
  PRO_LIMIT_PER_DAY :: int

subsection \<open>Persisted state\<close>

text \<open>
  Table \<^verbatim>\<open>api_keys(api_key TEXT PRIMARY KEY, plan TEXT DEFAULT 'free', is_active INTEGER
  DEFAULT 1, created_at TEXT DEFAULT '')\<close>: a row per key. The three data columns are
  nullable, so each is an option (\<open>None\<close> is SQL NULL).
  Table \<^verbatim>\<open>usage_counters(api_key, day, count INTEGER NOT NULL DEFAULT 0, PRIMARY KEY
  (api_key, day))\<close>: a count per (key, day). Counts are unbounded integers here; a
  count of SQLite's 64-bit range is out of reach of one increment per request.
\<close>

record key_row =
  plan :: "string option"
  is_active :: "int option"
  created_at :: "string option"

record database =
  api_keys :: "string \<rightharpoonup> key_row"
  usage_counters :: "string \<times> string \<rightharpoonup> int"

definition init_db :: database where
  "init_db = \<lparr>api_keys = Map.empty, usage_counters = Map.empty\<rparr>"

subsection \<open>Errors\<close>

text \<open>
  \<open>HTTPException status detail\<close> is FastAPI's exception. \<open>TypeError\<close> is what Python's
  \<^verbatim>\<open>int(None)\<close> raises on a NULL \<^verbatim>\<open>is_active\<close>; \<open>IntegrityError\<close> is sqlite3's
  exception for a plain \<^verbatim>\<open>INSERT\<close> of an existing primary key.
\<close>

datatype error = HTTPException int string | TypeError | IntegrityError

subsection \<open>Python's \<^verbatim>\<open>str\<close> of an integer, for the f-string of the 429 message\<close>

definition digit_char :: "nat \<Rightarrow> char" where
  "digit_char d = ''0123456789'' ! d"

fun str_nat :: "nat \<Rightarrow> string" where
  "str_nat n = (if n < 10 then [digit_char n] else str_nat (n div 10) @ [digit_char (n mod 10)])"

declare str_nat.simps [simp del]

definition str_int :: "int \<Rightarrow> string" where
  "str_int i = (if i < 0 then CHR ''-'' # str_nat (nat (- i)) else str_nat (nat i))"

subsection \<open>Database helpers\<close>

text \<open>\<^verbatim>\<open>INSERT OR IGNORE ... VALUES(?, 'free', 1, ?)\<close>: a present key is left alone.\<close>

definition ensure_key_exists :: "string \<Rightarrow> string \<Rightarrow> database \<Rightarrow> database" where
  "ensure_key_exists now api_key s =
     (case api_keys s api_key of
        Some r \<Rightarrow> s
      | None \<Rightarrow> s\<lparr>api_keys := (api_keys s)(api_key \<mapsto>
                 \<lparr>plan = Some ''free'', is_active = Some 1, created_at = Some now\<rparr>)\<rparr>)"

text \<open>\<^verbatim>\<open>SELECT ... WHERE api_key=?\<close> then \<^verbatim>\<open>fetchone()\<close>: the row, or None.\<close>

definition get_key_row :: "string \<Rightarrow> database \<Rightarrow> key_row option" where
  "get_key_row api_key s = api_keys s api_key"

text \<open>\<^verbatim>\<open>UPDATE api_keys SET plan='pro', is_active=1 WHERE api_key=?\<close>: an update touches
  the rows that match, so an absent key leaves the table as it is.\<close>

definition upgrade_api_key_to_pro :: "string \<Rightarrow> database \<Rightarrow> database" where
  "upgrade_api_key_to_pro api_key s =
     (case api_keys s api_key of
        None \<Rightarrow> s
      | Some r \<Rightarrow> s\<lparr>api_keys := (api_keys s)(api_key \<mapsto>
                 r\<lparr>plan := Some ''pro'', is_active := Some 1\<rparr>)\<rparr>)"

text \<open>
  \<open>increment_usage\<close>: \<open>day\<close> is what \<^verbatim>\<open>utc_day_str()\<close> returns at the call. The three
  statements: insert the row with count 0 unless it is there, add 1, read it back.
\<close>

definition insert_or_ignore_counter :: "string \<Rightarrow> string \<Rightarrow> database \<Rightarrow> database" where
  "insert_or_ignore_counter api_key day s =
     (case usage_counters s (api_key, day) of
        Some c \<Rightarrow> s
      | None \<Rightarrow> s\<lparr>usage_counters := (usage_counters s)((api_key, day) \<mapsto> 0)\<rparr>)"

definition update_counter :: "string \<Rightarrow> string \<Rightarrow> database \<Rightarrow> database" where
  "update_counter api_key day s =
     (case usage_counters s (api_key, day) of
        None \<Rightarrow> s
      | Some c \<Rightarrow> s\<lparr>usage_counters := (usage_counters s)((api_key, day) \<mapsto> c + 1)\<rparr>)"

definition select_counter :: "string \<Rightarrow> string \<Rightarrow> database \<Rightarrow> int option" where
  "select_counter api_key day s = usage_counters s (api_key, day)"

definition increment_usage :: "string \<Rightarrow> string \<Rightarrow> database \<Rightarrow> (error + int) \<times> database" where
  "increment_usage day api_key s =
     (let s1 = insert_or_ignore_counter api_key day s;
          s2 = update_counter api_key day s1
      in case select_counter api_key day s2 of
           None \<Rightarrow> (Inl TypeError, s)
         | Some count \<Rightarrow> (Inr count, s2))"

definition get_limit_for_plan :: "config \<Rightarrow> string \<Rightarrow> int" where
  "get_limit_for_plan cfg p =
     (if p = ''pro'' then PRO_LIMIT_PER_DAY cfg else FREE_LIMIT_PER_DAY cfg)"

subsection \<open>The quota check\<close>

record usage_meta =
  meta_plan :: string
  used_today :: int
  limit_today :: int

text \<open>\<^verbatim>\<open>row["plan"] or "free"\<close>: NULL and the empty string are falsy.\<close>

definition plan_or_free :: "string option \<Rightarrow> string" where
  "plan_or_free p = (case p of None \<Rightarrow> ''free'' | Some v \<Rightarrow> if v = [] then ''free'' else v)"

definition limit_message :: "int \<Rightarrow> int \<Rightarrow> string" where
  "limit_message used limit =
     ''Daily limit exceeded: '' @ str_int (used - 1) @ ''/'' @ str_int limit
       @ '' used. Upgrade to PRO.''"

definition require_active_and_rate_limit ::
  "config \<Rightarrow> string \<Rightarrow> string \<Rightarrow> database \<Rightarrow> (error + usage_meta) \<times> database" where
  "require_active_and_rate_limit cfg day api_key s =
     (case get_key_row api_key s of
        None \<Rightarrow> (Inl (HTTPException 404 ''Unknown api_key. Create one first.''), s)
      | Some row \<Rightarrow>
          (case is_active row of
             None \<Rightarrow> (Inl TypeError, s)
           | Some a \<Rightarrow>
               if a \<noteq> 1 then (Inl (HTTPException 403 ''API key is not active.''), s)
               else
                 let p = plan_or_free (plan row);
                     limit = get_limit_for_plan cfg p
                 in (case increment_usage day api_key s of
                       (Inl e, s') \<Rightarrow> (Inl e, s')
                     | (Inr used, s') \<Rightarrow>
                         if used > limit
                         then (Inl (HTTPException 429 (limit_message used limit)), s')
                         else (Inr \<lparr>meta_plan = p, used_today = used, limit_today = limit\<rparr>, s'))))"

subsection \<open>Routes over the key store\<close>

text \<open>
  \<open>create_api_key\<close>: \<open>token\<close> is what \<^verbatim>\<open>secrets.token_urlsafe(24)\<close> returns and \<open>now\<close> the
  timestamp. The statement is a plain \<^verbatim>\<open>INSERT\<close>: on an existing primary key sqlite3
  raises and nothing is written. The response is the pair (api_key, plan).
\<close>

definition create_api_key ::
  "string \<Rightarrow> string \<Rightarrow> database \<Rightarrow> (error + string \<times> string) \<times> database" where
  "create_api_key token now s =
     (let api_key = ''key_'' @ token
      in case api_keys s api_key of
           Some r \<Rightarrow> (Inl IntegrityError, s)
         | None \<Rightarrow>
             (Inr (api_key, ''free''),
              s\<lparr>api_keys := (api_keys s)(api_key \<mapsto>
                 \<lparr>plan = Some ''free'', is_active = Some 1, created_at = Some now\<rparr>)\<rparr>))"

text \<open>\<open>key_status\<close> reads only: the response is (api_key, plan, is_active as a bool).\<close>

definition key_status :: "string \<Rightarrow> database \<Rightarrow> error + string \<times> string option \<times> bool" where
  "key_status api_key s =
     (case get_key_row api_key s of
        None \<Rightarrow> Inl (HTTPException 404 ''Unknown api_key'')
      | Some row \<Rightarrow>
          (case is_active row of
             None \<Rightarrow> Inl TypeError
           | Some a \<Rightarrow> Inr (api_key, plan row, a \<noteq> 0)))"

subsection \<open>The Stripe webhook\<close>

text \<open>
  The event that \<^verbatim>\<open>stripe.Webhook.construct_event\<close> returns, as far as the route reads
  it: \<^verbatim>\<open>event["type"]\<close> and \<^verbatim>\<open>event["data"]["object"].get("metadata")\<close>, a dictionary of
  strings or nothing. The library call itself is the argument \<open>construct_event\<close>, from
  payload, signature header (absent: \<open>None\<close>) and secret to an event; \<open>None\<close> stands for
  any exception it raises.
\<close>

record session =
  metadata :: "(string \<rightharpoonup> string) option"

record event =
  event_type :: string
  data_object :: session

type_synonym verifier = "string \<Rightarrow> string option \<Rightarrow> string \<Rightarrow> event option"

text \<open>\<^verbatim>\<open>(session.get("metadata") or {}).get("api_key")\<close>\<close>

definition metadata_api_key :: "session \<Rightarrow> string option" where
  "metadata_api_key sess = (case metadata sess of None \<Rightarrow> None | Some m \<Rightarrow> m ''api_key'')"

text \<open>The response \<open>Inr True\<close> is \<^verbatim>\<open>JSONResponse({"ok": True})\<close>.\<close>

definition stripe_webhook ::
  "config \<Rightarrow> verifier \<Rightarrow> string \<Rightarrow> string option \<Rightarrow> database \<Rightarrow> (error + bool) \<times> database" where
  "stripe_webhook cfg construct_event payload sig_header s =
     (if WEBHOOK_SECRET cfg = [] then (Inl (HTTPException 500 ''STRIPE_WEBHOOK_SECRET is missing''), s)
      else
        case construct_event payload sig_header (WEBHOOK_SECRET cfg) of
          None \<Rightarrow> (Inl (HTTPException 400 ''Invalid webhook signature''), s)
        | Some ev \<Rightarrow>
            if event_type ev = ''checkout.session.completed''
            then (case metadata_api_key (data_object ev) of
                    None \<Rightarrow> (Inr True, s)
                  | Some api_key \<Rightarrow>
                      if api_key \<noteq> [] then (Inr True, upgrade_api_key_to_pro api_key s)
                      else (Inr True, s))
            else (Inr True, s))"

subsection \<open>Sequences of operations\<close>

text \<open>
  The operations on the store, each with what it reads from outside, and the state after
  one of them and after a list of them.
\<close>

datatype operation =
    CreateKey string string
  | EnsureExists string string
  | Get string
  | CheckAndCount string string
  | UpgradeToPro string
  | HandlePaymentEvent string "string option"

fun step :: "config \<Rightarrow> verifier \<Rightarrow> operation \<Rightarrow> database \<Rightarrow> database" where
  "step cfg ce (CreateKey token now) s = snd (create_api_key token now s)"
| "step cfg ce (EnsureExists now k) s = ensure_key_exists now k s"
| "step cfg ce (Get k) s = s"
| "step cfg ce (CheckAndCount day k) s = snd (require_active_and_rate_limit cfg day k s)"
| "step cfg ce (UpgradeToPro k) s = upgrade_api_key_to_pro k s"
| "step cfg ce (HandlePaymentEvent payload sig_header) s =
     snd (stripe_webhook cfg ce payload sig_header s)"

fun run :: "config \<Rightarrow> verifier \<Rightarrow> operation list \<Rightarrow> database \<Rightarrow> database" where
  "run cfg ce [] s = s"
| "run cfg ce (x # xs) s = run cfg ce xs (step cfg ce x s)"

text \<open>\<open>n\<close> quota checks of one key on one day, one after the other, with their results.\<close>

fun check_and_count_times ::
  "config \<Rightarrow> string \<Rightarrow> string \<Rightarrow> nat \<Rightarrow> database \<Rightarrow> (error + usage_meta) list \<times> database" where
  "check_and_count_times cfg day k 0 s = ([], s)"
| "check_and_count_times cfg day k (Suc n) s =
     (case require_active_and_rate_limit cfg day k s of
        (res, s') \<Rightarrow>
          (case check_and_count_times cfg day k n s' of
             (rest, s'') \<Rightarrow> (res # rest, s'')))"

text \<open>The count of a (key, day) pair, an absent row counting 0 as the insert creates it.\<close>

definition count_of :: "database \<Rightarrow> string \<Rightarrow> string \<Rightarrow> int" where
  "count_of s k d = (case usage_counters s (k, d) of None \<Rightarrow> 0 | Some c \<Rightarrow> c)"

text \<open>What a quota check answers once the key is known to be active: steps 5 and 6.\<close>

definition outcome :: "string \<Rightarrow> int \<Rightarrow> int \<Rightarrow> error + usage_meta" where
  "outcome p limit used =
     (if used > limit then Inl (HTTPException 429 (limit_message used limit))
      else Inr \<lparr>meta_plan = p, used_today = used, limit_today = limit\<rparr>)"

text \<open>Every usage row records at least one request: what the ledger looks like in
  any database that the operations build from the empty one.\<close>

definition counts_positive :: "database \<Rightarrow> bool" where
  "counts_positive s = (\<forall>k d c. usage_counters s (k, d) = Some c \<longrightarrow> 1 \<le> c)"

subsection \<open>Concrete inputs for the examples\<close>

definition demo_config :: config where
  "demo_config =
     \<lparr>WEBHOOK_SECRET = ''whsec_test'', FREE_LIMIT_PER_DAY = 25, PRO_LIMIT_PER_DAY = 10000\<rparr>"

definition demo_row :: "string \<Rightarrow> int \<Rightarrow> key_row" where
  "demo_row p a =
     \<lparr>plan = Some p, is_active = Some a, created_at = Some ''2024-01-01T00:00:00+00:00''\<rparr>"

definition demo_db :: "key_row \<Rightarrow> (string \<times> string \<rightharpoonup> int) \<Rightarrow> database" where
  "demo_db r u = \<lparr>api_keys = [''key_abc'' \<mapsto> r], usage_counters = u\<rparr>"

definition demo_event :: "string \<Rightarrow> event" where
  "demo_event k = \<lparr>event_type = ''checkout.session.completed'',
                    data_object = \<lparr>metadata = Some [''api_key'' \<mapsto> k]\<rparr>\<rparr>"

text \<open>A stand-in for the library's check: the header \<open>good\<close> passes, and the event
  names the key that the payload spells.\<close>

definition demo_verifier :: verifier where
  "demo_verifier payload sig_header secret =
     (if sig_header = Some ''good'' then Some (demo_event payload) else None)"

text \<open>The check at a later time: the signature header of the first delivery has aged
  out, and a header signed afresh passes, for the same event.\<close>

definition demo_verifier_later :: verifier where
  "demo_verifier_later payload sig_header secret =
     (if sig_header = Some ''fresh'' then Some (demo_event payload) else None)"

section \<open>Properties\<close>

subsection \<open>The usage ledger and the quota check\<close>

text \<open>One increment: the post-increment count is returned and stored, and the select
  after the insert and the update always finds the row.\<close>

lemma increment_usage_eq:
  "increment_usage day k s =
     (Inr (count_of s k day + 1),
      s\<lparr>usage_counters := (usage_counters s)((k, day) \<mapsto> count_of s k day + 1)\<rparr>)"
  by (simp add: increment_usage_def insert_or_ignore_counter_def update_counter_def
      select_counter_def count_of_def split: option.splits)

lemma require_active_eq:
  assumes "api_keys s k = Some r" and "is_active r = Some 1"
  shows "require_active_and_rate_limit cfg day k s =
     (outcome (plan_or_free (plan r)) (get_limit_for_plan cfg (plan_or_free (plan r)))
        (count_of s k day + 1),
      s\<lparr>usage_counters := (usage_counters s)((k, day) \<mapsto> count_of s k day + 1)\<rparr>)"
  using assms
  by (simp add: require_active_and_rate_limit_def get_key_row_def increment_usage_eq Let_def
      outcome_def)

lemma check_and_count_times_results:
  assumes "api_keys s k = Some r" and "is_active r = Some 1"
  shows "fst (check_and_count_times cfg day k n s) =
     map (\<lambda>i. outcome (plan_or_free (plan r)) (get_limit_for_plan cfg (plan_or_free (plan r)))
                 (count_of s k day + 1 + int i)) [0..<n]"
  using assms
proof (induction n arbitrary: s)
  case 0
  then show ?case by simp
next
  case (Suc n)
  let ?s' = "s\<lparr>usage_counters := (usage_counters s)((k, day) \<mapsto> count_of s k day + 1)\<rparr>"
  have keys: "api_keys ?s' k = Some r" using Suc.prems by simp
  have cnt: "count_of ?s' k day = count_of s k day + 1" by (simp add: count_of_def)
  have ih: "fst (check_and_count_times cfg day k n ?s') =
     map (\<lambda>i. outcome (plan_or_free (plan r)) (get_limit_for_plan cfg (plan_or_free (plan r)))
                 (count_of s k day + 1 + 1 + int i)) [0..<n]"
    using Suc.IH [OF keys Suc.prems(2)] by (simp only: cnt)
  have unroll: "fst (check_and_count_times cfg day k (Suc n) s) =
      outcome (plan_or_free (plan r)) (get_limit_for_plan cfg (plan_or_free (plan r)))
         (count_of s k day + 1) # fst (check_and_count_times cfg day k n ?s')"
    by (simp add: require_active_eq [OF Suc.prems] split: prod.splits)
  have upt: "[0..<Suc n] = 0 # map Suc [0..<n]"
    by (simp only: map_Suc_upt upt_conv_Cons [of 0 "Suc n"] zero_less_Suc if_True)
  have shift: "count_of s k day + 1 + 1 + int i = count_of s k day + 1 + int (Suc i)" for i
    by simp
  show ?case
    unfolding unroll ih upt shift by (simp add: comp_def)
qed

text \<open>
  Claim C1. A key with plan \<open>free\<close>, active, with no usage row for the day, under a free
  limit of 25: of 26 quota checks in a row the first 25 succeed with \<open>used_today\<close> 1, 2,
  ..., 25 in this order (plan \<open>free\<close>, limit 25), and the 26th raises the 429 exception
  whose message reports 25 used of 25, that is \<open>used - 1\<close> and the limit.
\<close>

theorem free_quota_25_then_denied:
  assumes "api_keys s k = Some r" and "plan r = Some ''free''" and "is_active r = Some 1"
    and "usage_counters s (k, day) = None" and "FREE_LIMIT_PER_DAY cfg = 25"
  shows "fst (check_and_count_times cfg day k 26 s) =
     map (\<lambda>i. Inr \<lparr>meta_plan = ''free'', used_today = i, limit_today = 25\<rparr>) [1..25]
     @ [Inl (HTTPException 429 ''Daily limit exceeded: 25/25 used. Upgrade to PRO.'')]"
proof -
  have p: "plan_or_free (plan r) = ''free''" using assms(2) by (simp add: plan_or_free_def)
  have l: "get_limit_for_plan cfg ''free'' = 25" using assms(5) by (simp add: get_limit_for_plan_def)
  have c: "count_of s k day = 0" using assms(4) by (simp add: count_of_def)
  have m: "limit_message 26 25 = ''Daily limit exceeded: 25/25 used. Upgrade to PRO.''"
    by (simp add: limit_message_def str_int_def str_nat.simps digit_char_def)
  have u: "[0..<26] = [0,1,2,3,4,5,6,7,8,9,10,11,12,13,14,15,16,17,18,19,20,21,22,23,24,25::nat]"
    by code_simp
  have v: "[1..25] = [1,2,3,4,5,6,7,8,9,10,11,12,13,14,15,16,17,18,19,20,21,22,23,24,25::int]"
    by code_simp
  show ?thesis
    unfolding check_and_count_times_results [OF assms(1) assms(3)] p l c u v
    by (simp add: outcome_def m)
qed

theorem free_quota_25_then_denied_witness:
  "fst (check_and_count_times demo_config ''2024-01-01'' ''key_abc'' 26
          (demo_db (demo_row ''free'' 1) Map.empty)) =
     map (\<lambda>i. Inr \<lparr>meta_plan = ''free'', used_today = i, limit_today = 25\<rparr>) [1..25]
     @ [Inl (HTTPException 429 ''Daily limit exceeded: 25/25 used. Upgrade to PRO.'')]"
  using free_quota_25_then_denied [of "demo_db (demo_row ''free'' 1) Map.empty" "''key_abc''"
      "demo_row ''free'' 1" "''2024-01-01''" demo_config]
  by (simp add: demo_db_def demo_row_def demo_config_def)

text \<open>
  Claim C2. Whenever a quota check raises the 429 exception, the count of (key, today)
  after the call is the count before it plus one (an absent row counting 0): the
  increment made before the comparison stays, and nothing else of the database changes.
\<close>

theorem denied_call_keeps_increment:
  assumes "require_active_and_rate_limit cfg day k s = (Inl (HTTPException 429 msg), s')"
  shows "count_of s' k day = count_of s k day + 1
       \<and> s' = s\<lparr>usage_counters := (usage_counters s)((k, day) \<mapsto> count_of s k day + 1)\<rparr>"
proof (cases "api_keys s k")
  case None
  with assms show ?thesis
    by (simp add: require_active_and_rate_limit_def get_key_row_def)
next
  case (Some r)
  show ?thesis
  proof (cases "is_active r = Some 1")
    case True
    from assms have "s' = s\<lparr>usage_counters := (usage_counters s)((k, day) \<mapsto> count_of s k day + 1)\<rparr>"
      by (simp add: require_active_eq [OF Some True])
    then show ?thesis by (simp add: count_of_def)
  next
    case False
    with assms Some show ?thesis
      by (auto simp: require_active_and_rate_limit_def get_key_row_def split: option.splits if_splits)
  qed
qed

theorem denied_call_keeps_increment_witness:
  "require_active_and_rate_limit demo_config ''2024-01-01'' ''key_abc''
      (demo_db (demo_row ''free'' 1) [(''key_abc'', ''2024-01-01'') \<mapsto> 25])
    = (Inl (HTTPException 429 ''Daily limit exceeded: 25/25 used. Upgrade to PRO.''),
       demo_db (demo_row ''free'' 1) [(''key_abc'', ''2024-01-01'') \<mapsto> 26])
   \<and> count_of (demo_db (demo_row ''free'' 1) [(''key_abc'', ''2024-01-01'') \<mapsto> 26])
        ''key_abc'' ''2024-01-01''
     = count_of (demo_db (demo_row ''free'' 1) [(''key_abc'', ''2024-01-01'') \<mapsto> 25])
        ''key_abc'' ''2024-01-01'' + 1"
  (is "_ \<and> ?inc")
proof -
  have run: "require_active_and_rate_limit demo_config ''2024-01-01'' ''key_abc''
      (demo_db (demo_row ''free'' 1) [(''key_abc'', ''2024-01-01'') \<mapsto> 25])
    = (Inl (HTTPException 429 ''Daily limit exceeded: 25/25 used. Upgrade to PRO.''),
       demo_db (demo_row ''free'' 1) [(''key_abc'', ''2024-01-01'') \<mapsto> 26])"
    by (simp add: require_active_and_rate_limit_def get_key_row_def increment_usage_def
        insert_or_ignore_counter_def update_counter_def select_counter_def
        get_limit_for_plan_def plan_or_free_def limit_message_def str_int_def str_nat.simps
        digit_char_def demo_db_def demo_row_def demo_config_def)
  from denied_call_keeps_increment [OF run] have "?inc" by (rule conjunct1)
  with run show ?thesis by (rule conjI)
qed

text \<open>
  Claim C4. For a key whose row has \<open>is_active\<close> other than 1, whatever its count, the
  quota check raises the 403 exception and returns the database as it was: the check
  comes before the increment, so the usage row of (key, today) is untouched.
\<close>

theorem inactive_key_forbidden_unchanged:
  assumes "api_keys s k = Some r" and "is_active r = Some a" and "a \<noteq> 1"
  shows "require_active_and_rate_limit cfg day k s =
           (Inl (HTTPException 403 ''API key is not active.''), s)"
  using assms by (simp add: require_active_and_rate_limit_def get_key_row_def)

theorem inactive_key_forbidden_unchanged_witness:
  "count_of (demo_db (demo_row ''free'' 0) [(''key_abc'', ''2024-01-01'') \<mapsto> 3])
      ''key_abc'' ''2024-01-01'' < FREE_LIMIT_PER_DAY demo_config
   \<and> require_active_and_rate_limit demo_config ''2024-01-01'' ''key_abc''
        (demo_db (demo_row ''free'' 0) [(''key_abc'', ''2024-01-01'') \<mapsto> 3])
      = (Inl (HTTPException 403 ''API key is not active.''),
         demo_db (demo_row ''free'' 0) [(''key_abc'', ''2024-01-01'') \<mapsto> 3])"
  using inactive_key_forbidden_unchanged
    [of "demo_db (demo_row ''free'' 0) [(''key_abc'', ''2024-01-01'') \<mapsto> 3]"
      "''key_abc''" "demo_row ''free'' 0" 0 demo_config "''2024-01-01''"]
  by (simp add: demo_db_def demo_row_def demo_config_def count_of_def)

subsection \<open>The webhook\<close>

text \<open>
  Claim C5. When the webhook secret is empty, or the signature check raises on the
  payload and header, the webhook raises (500, respectively 400) and returns the
  database as it was, whatever the payload.
\<close>

theorem webhook_rejected_state_unchanged:
  assumes "WEBHOOK_SECRET cfg = [] \<or> construct_event payload sig_header (WEBHOOK_SECRET cfg) = None"
  shows "stripe_webhook cfg construct_event payload sig_header s =
    (Inl (if WEBHOOK_SECRET cfg = [] then HTTPException 500 ''STRIPE_WEBHOOK_SECRET is missing''
          else HTTPException 400 ''Invalid webhook signature''), s)"
  using assms by (auto simp: stripe_webhook_def)

theorem webhook_rejected_state_unchanged_witness:
  "stripe_webhook demo_config demo_verifier ''key_abc'' (Some ''forged'')
      (demo_db (demo_row ''free'' 1) Map.empty)
    = (Inl (HTTPException 400 ''Invalid webhook signature''), demo_db (demo_row ''free'' 1) Map.empty)
   \<and> stripe_webhook (demo_config\<lparr>WEBHOOK_SECRET := []\<rparr>) demo_verifier ''key_abc'' (Some ''good'')
      (demo_db (demo_row ''free'' 1) Map.empty)
    = (Inl (HTTPException 500 ''STRIPE_WEBHOOK_SECRET is missing''),
       demo_db (demo_row ''free'' 1) Map.empty)"
  using webhook_rejected_state_unchanged [of demo_config demo_verifier "''key_abc''"
        "Some ''forged''" "demo_db (demo_row ''free'' 1) Map.empty"]
    webhook_rejected_state_unchanged [of "demo_config\<lparr>WEBHOOK_SECRET := []\<rparr>" demo_verifier
        "''key_abc''" "Some ''good''" "demo_db (demo_row ''free'' 1) Map.empty"]
  by (simp add: demo_config_def demo_verifier_def)

subsection \<open>The key store: upgrades and plans\<close>

lemma upgrade_twice:
  "upgrade_api_key_to_pro k (upgrade_api_key_to_pro k s) = upgrade_api_key_to_pro k s"
  by (simp add: upgrade_api_key_to_pro_def split: option.splits)

lemma upgrade_present:
  "api_keys s k = Some r \<Longrightarrow>
     api_keys (upgrade_api_key_to_pro k s) k = Some (r\<lparr>plan := Some ''pro'', is_active := Some 1\<rparr>)"
  by (simp add: upgrade_api_key_to_pro_def)

lemma upgrade_other:
  "k' \<noteq> k \<Longrightarrow> api_keys (upgrade_api_key_to_pro k s) k' = api_keys s k'"
  by (simp add: upgrade_api_key_to_pro_def split: option.splits)

text \<open>A second delivery that verifies to the event of the first: each delivery has its own
  signature header and its own run of the library's check (which reads the clock).\<close>

lemma webhook_redelivery:
  assumes "ce1 payload h1 (WEBHOOK_SECRET cfg) = Some ev"
    and "ce2 payload h2 (WEBHOOK_SECRET cfg) = Some ev"
  shows "snd (stripe_webhook cfg ce2 payload h2 (snd (stripe_webhook cfg ce1 payload h1 s)))
           = snd (stripe_webhook cfg ce1 payload h1 s)"
  using assms by (simp add: stripe_webhook_def upgrade_twice split: option.splits)

text \<open>
  Claim C3, where it fails. The claim gives plan Pro and active as the end state of the
  upgrade for every key. For a key with no row the \<^verbatim>\<open>UPDATE\<close> matches nothing: in the
  empty database, after two upgrades of \<open>key_new\<close>, and likewise after two deliveries of
  a verified checkout-completed event that names it, the key has no row at all.
\<close>

theorem upgrade_twice_absent_key_not_pro:
  "api_keys (upgrade_api_key_to_pro ''key_new'' (upgrade_api_key_to_pro ''key_new'' init_db))
      ''key_new'' = None
   \<and> stripe_webhook demo_config demo_verifier ''key_new'' (Some ''good'') init_db
       = (Inr True, init_db)
   \<and> api_keys (snd (stripe_webhook demo_config demo_verifier ''key_new'' (Some ''good'')
        (snd (stripe_webhook demo_config demo_verifier ''key_new'' (Some ''good'') init_db))))
      ''key_new'' = None"
  by (simp add: upgrade_api_key_to_pro_def init_db_def stripe_webhook_def demo_config_def
      demo_verifier_def demo_event_def metadata_api_key_def)

text \<open>
  Claim C3, amended. For every key and database, upgrading twice leaves the same end
  state as upgrading once. That end state has plan \<open>pro\<close> and \<open>is_active\<close> 1 for the key
  when the key has a row; when it has none, one upgrade and two upgrades both return the
  database unchanged, the key still without a row. Delivering the same valid payload
  twice leaves the database as delivering it once does: valid means that the signature
  check returns the payload's event, at each delivery with that delivery's header and
  that delivery's run of the check.
\<close>

theorem upgrade_and_webhook_idempotent:
  "upgrade_api_key_to_pro k (upgrade_api_key_to_pro k s) = upgrade_api_key_to_pro k s
   \<and> (api_keys s k \<noteq> None \<longrightarrow>
        (\<exists>r. api_keys (upgrade_api_key_to_pro k s) k = Some r
           \<and> plan r = Some ''pro'' \<and> is_active r = Some 1))
   \<and> (api_keys s k = None \<longrightarrow>
        upgrade_api_key_to_pro k s = s
      \<and> upgrade_api_key_to_pro k (upgrade_api_key_to_pro k s) = s
      \<and> api_keys (upgrade_api_key_to_pro k (upgrade_api_key_to_pro k s)) k = None)
   \<and> (ce1 payload h1 (WEBHOOK_SECRET cfg) = Some ev
        \<and> ce2 payload h2 (WEBHOOK_SECRET cfg) = Some ev \<longrightarrow>
        snd (stripe_webhook cfg ce2 payload h2 (snd (stripe_webhook cfg ce1 payload h1 s)))
          = snd (stripe_webhook cfg ce1 payload h1 s))"
proof (intro conjI impI)
  show "upgrade_api_key_to_pro k (upgrade_api_key_to_pro k s) = upgrade_api_key_to_pro k s"
    by (rule upgrade_twice)
next
  assume "api_keys s k \<noteq> None"
  then obtain r where "api_keys s k = Some r" by blast
  from upgrade_present [OF this]
  show "\<exists>r. api_keys (upgrade_api_key_to_pro k s) k = Some r
           \<and> plan r = Some ''pro'' \<and> is_active r = Some 1"
    by simp
next
  assume absent: "api_keys s k = None"
  then show once: "upgrade_api_key_to_pro k s = s"
    by (simp add: upgrade_api_key_to_pro_def)
  then show twice: "upgrade_api_key_to_pro k (upgrade_api_key_to_pro k s) = s"
    by simp
  with absent show "api_keys (upgrade_api_key_to_pro k (upgrade_api_key_to_pro k s)) k = None"
    by simp
next
  assume "ce1 payload h1 (WEBHOOK_SECRET cfg) = Some ev
        \<and> ce2 payload h2 (WEBHOOK_SECRET cfg) = Some ev"
  then show "snd (stripe_webhook cfg ce2 payload h2 (snd (stripe_webhook cfg ce1 payload h1 s)))
          = snd (stripe_webhook cfg ce1 payload h1 s)"
    by (simp add: webhook_redelivery)
qed

theorem upgrade_and_webhook_idempotent_witness:
  "(api_keys (demo_db (demo_row ''free'' 0) Map.empty) ''key_abc'' \<noteq> None
     \<and> upgrade_api_key_to_pro ''key_abc'' (demo_db (demo_row ''free'' 0) Map.empty)
         = demo_db (demo_row ''pro'' 1) Map.empty
     \<and> upgrade_api_key_to_pro ''key_abc''
          (upgrade_api_key_to_pro ''key_abc'' (demo_db (demo_row ''free'' 0) Map.empty))
         = demo_db (demo_row ''pro'' 1) Map.empty)
   \<and> (api_keys init_db ''key_new'' = None
     \<and> upgrade_api_key_to_pro ''key_new'' init_db = init_db
     \<and> upgrade_api_key_to_pro ''key_new'' (upgrade_api_key_to_pro ''key_new'' init_db) = init_db)
   \<and> (demo_verifier ''key_abc'' (Some ''good'') (WEBHOOK_SECRET demo_config)
         = Some (demo_event ''key_abc'')
     \<and> demo_verifier_later ''key_abc'' (Some ''fresh'') (WEBHOOK_SECRET demo_config)
         = Some (demo_event ''key_abc'')
     \<and> snd (stripe_webhook demo_config demo_verifier ''key_abc'' (Some ''good'')
          (demo_db (demo_row ''free'' 0) Map.empty))
         = demo_db (demo_row ''pro'' 1) Map.empty
     \<and> snd (stripe_webhook demo_config demo_verifier_later ''key_abc'' (Some ''fresh'')
          (snd (stripe_webhook demo_config demo_verifier ''key_abc'' (Some ''good'')
                  (demo_db (demo_row ''free'' 0) Map.empty))))
         = demo_db (demo_row ''pro'' 1) Map.empty)"
  (is "(?a1 \<and> ?a2 \<and> ?a3) \<and> (?b1 \<and> ?b2 \<and> ?b3) \<and> (?c1 \<and> ?c2 \<and> ?c3 \<and> ?c4)")
proof -
  let ?s = "demo_db (demo_row ''free'' 0) Map.empty"
  note present = upgrade_and_webhook_idempotent
    [of "''key_abc''" ?s demo_verifier "''key_abc''" "Some ''good''" demo_config
      "demo_event ''key_abc''" demo_verifier_later "Some ''fresh''"]
  note absent = upgrade_and_webhook_idempotent
    [of "''key_new''" init_db demo_verifier "''key_abc''" "Some ''good''" demo_config
      "demo_event ''key_abc''" demo_verifier_later "Some ''fresh''"]
  have a1: ?a1 by (simp add: demo_db_def)
  have a2: ?a2 by (simp add: upgrade_api_key_to_pro_def demo_db_def demo_row_def)
  from present a2 have a3: ?a3 by simp
  have b1: ?b1 by (simp add: init_db_def)
  from absent b1 have b2: ?b2 and b3: ?b3 by blast+
  have c1: ?c1 by (simp add: demo_verifier_def)
  have c2: ?c2 by (simp add: demo_verifier_later_def)
  have c3: ?c3
    by (simp add: stripe_webhook_def demo_config_def demo_verifier_def demo_event_def
        metadata_api_key_def a2)
  from present c1 c2 have "snd (stripe_webhook demo_config demo_verifier_later ''key_abc''
      (Some ''fresh'') (snd (stripe_webhook demo_config demo_verifier ''key_abc'' (Some ''good'') ?s)))
        = snd (stripe_webhook demo_config demo_verifier ''key_abc'' (Some ''good'') ?s)"
    by blast
  with c3 have c4: ?c4 by simp
  from a1 a2 a3 b1 b2 b3 c1 c2 c3 c4 show ?thesis by blast
qed

text \<open>
  Claim C8, where it fails. \<open>key_other\<close> has no row in a database that holds only
  \<open>key_abc\<close>; upgrading it raises nothing, changes nothing, and the key still has no row
  afterwards, so it does not exist with plan Pro.
\<close>

theorem upgrade_absent_key_stays_absent:
  "api_keys (demo_db (demo_row ''free'' 1) Map.empty) ''key_other'' = None
   \<and> upgrade_api_key_to_pro ''key_other'' (demo_db (demo_row ''free'' 1) Map.empty)
       = demo_db (demo_row ''free'' 1) Map.empty
   \<and> api_keys (upgrade_api_key_to_pro ''key_other'' (demo_db (demo_row ''free'' 1) Map.empty))
        ''key_other'' = None"
  by (simp add: upgrade_api_key_to_pro_def demo_db_def)

text \<open>
  Claim C8, amended. The upgrade never raises. For a key with no row it returns the
  database unchanged; for a key with a row \<open>r\<close> it sets plan \<open>pro\<close> and \<open>is_active\<close> 1 in
  that row and keeps the rest of it. After \<open>ensure_key_exists\<close> for the key, as the
  checkout route calls it, the upgrade leaves the key with plan \<open>pro\<close> and active.
\<close>

theorem upgrade_requires_existing_key:
  "(api_keys s k = None \<longrightarrow> upgrade_api_key_to_pro k s = s)
   \<and> (api_keys s k = Some r \<longrightarrow>
        api_keys (upgrade_api_key_to_pro k s) k
          = Some (r\<lparr>plan := Some ''pro'', is_active := Some 1\<rparr>))
   \<and> (\<exists>r'. api_keys (upgrade_api_key_to_pro k (ensure_key_exists now k s)) k = Some r'
          \<and> plan r' = Some ''pro'' \<and> is_active r' = Some 1)"
  by (auto simp: upgrade_api_key_to_pro_def ensure_key_exists_def split: option.splits)

theorem upgrade_requires_existing_key_witness:
  "api_keys init_db ''key_new'' = None
   \<and> upgrade_api_key_to_pro ''key_new'' init_db = init_db
   \<and> api_keys (demo_db (demo_row ''free'' 0) Map.empty) ''key_abc'' = Some (demo_row ''free'' 0)
   \<and> api_keys (upgrade_api_key_to_pro ''key_abc'' (demo_db (demo_row ''free'' 0) Map.empty))
        ''key_abc'' = Some (demo_row ''pro'' 1)
   \<and> api_keys (upgrade_api_key_to_pro ''key_new''
         (ensure_key_exists ''2024-01-01T00:00:00+00:00'' ''key_new'' init_db)) ''key_new''
       = Some (demo_row ''pro'' 1)"
proof -
  have a: "api_keys init_db ''key_new'' = None" by (simp add: init_db_def)
  have b: "api_keys (demo_db (demo_row ''free'' 0) Map.empty) ''key_abc'' = Some (demo_row ''free'' 0)"
    by (simp add: demo_db_def)
  have c: "demo_row ''free'' 0\<lparr>plan := Some ''pro'', is_active := Some 1\<rparr> = demo_row ''pro'' 1"
    by (simp add: demo_row_def)
  have d: "api_keys (upgrade_api_key_to_pro ''key_new''
         (ensure_key_exists ''2024-01-01T00:00:00+00:00'' ''key_new'' init_db)) ''key_new''
       = Some (demo_row ''pro'' 1)"
    by (simp add: upgrade_api_key_to_pro_def ensure_key_exists_def init_db_def demo_row_def)
  from upgrade_requires_existing_key [of init_db "''key_new''" "demo_row ''free'' 0"] a
  have e: "upgrade_api_key_to_pro ''key_new'' init_db = init_db" by simp
  from upgrade_requires_existing_key
    [of "demo_db (demo_row ''free'' 0) Map.empty" "''key_abc''" "demo_row ''free'' 0"] b c
  have f: "api_keys (upgrade_api_key_to_pro ''key_abc'' (demo_db (demo_row ''free'' 0) Map.empty))
        ''key_abc'' = Some (demo_row ''pro'' 1)" by simp
  from a e b f d show ?thesis by simp
qed

subsection \<open>No operation lowers a plan\<close>

lemma require_api_keys:
  "api_keys (snd (require_active_and_rate_limit cfg day k s)) = api_keys s"
  by (simp add: require_active_and_rate_limit_def get_key_row_def increment_usage_eq Let_def
      split: option.splits)

lemma ensure_row:
  "api_keys s k = Some r \<Longrightarrow> api_keys (ensure_key_exists now k' s) k = Some r"
  by (auto simp: ensure_key_exists_def split: option.splits)

lemma create_row:
  "api_keys s k = Some r \<Longrightarrow> api_keys (snd (create_api_key token now s)) k = Some r"
  by (auto simp: create_api_key_def Let_def split: option.splits)

lemma upgrade_row:
  "api_keys s k = Some r \<Longrightarrow>
     api_keys (upgrade_api_key_to_pro k' s) k = Some r
   \<or> api_keys (upgrade_api_key_to_pro k' s) k = Some (r\<lparr>plan := Some ''pro'', is_active := Some 1\<rparr>)"
  by (cases "k' = k") (simp_all add: upgrade_present upgrade_other)

lemma webhook_row:
  "api_keys s k = Some r \<Longrightarrow>
     api_keys (snd (stripe_webhook cfg ce payload sig_header s)) k = Some r
   \<or> api_keys (snd (stripe_webhook cfg ce payload sig_header s)) k
        = Some (r\<lparr>plan := Some ''pro'', is_active := Some 1\<rparr>)"
  using upgrade_row [of s k r]
  by (simp add: stripe_webhook_def split: option.splits)

text \<open>One operation leaves a row as it is or as the upgrade makes it.\<close>

lemma step_row:
  "api_keys s k = Some r \<Longrightarrow>
     api_keys (step cfg ce x s) k = Some r
   \<or> api_keys (step cfg ce x s) k = Some (r\<lparr>plan := Some ''pro'', is_active := Some 1\<rparr>)"
  by (cases x) (simp_all add: ensure_row create_row upgrade_row webhook_row require_api_keys)

lemma run_row:
  "api_keys s k = Some r \<Longrightarrow>
     api_keys (run cfg ce xs s) k = Some r
   \<or> api_keys (run cfg ce xs s) k = Some (r\<lparr>plan := Some ''pro'', is_active := Some 1\<rparr>)"
proof (induction xs arbitrary: s r)
  case Nil
  then show ?case by simp
next
  case (Cons x xs)
  from step_row [OF Cons.prems, of cfg ce x]
  show ?case
  proof
    assume "api_keys (step cfg ce x s) k = Some r"
    from Cons.IH [OF this] show ?thesis by simp
  next
    assume "api_keys (step cfg ce x s) k = Some (r\<lparr>plan := Some ''pro'', is_active := Some 1\<rparr>)"
    from Cons.IH [OF this] show ?thesis by simp
  qed
qed

text \<open>
  Claim C6. Along every list of the six operations, from every database: a key whose
  plan is \<open>pro\<close> still has a row with plan \<open>pro\<close> at the end; more generally the plan of
  a row at the end is the plan it had or \<open>pro\<close>, so nothing lowers it; and
  \<open>ensure_key_exists\<close> and \<open>create_api_key\<close> leave every existing row exactly as it was.
\<close>

theorem plan_never_downgraded:
  "(api_keys s k = Some r \<and> plan r = Some ''pro'' \<longrightarrow>
      (\<exists>r'. api_keys (run cfg ce xs s) k = Some r' \<and> plan r' = Some ''pro''))
   \<and> (api_keys s k = Some r \<longrightarrow>
      (\<exists>r'. api_keys (run cfg ce xs s) k = Some r' \<and> (plan r' = plan r \<or> plan r' = Some ''pro'')))
   \<and> (api_keys s k = Some r \<longrightarrow>
        api_keys (ensure_key_exists now k' s) k = Some r
      \<and> api_keys (snd (create_api_key token now s)) k = Some r)"
  using run_row [of s k r cfg ce xs] by (auto simp: ensure_row create_row)

theorem plan_never_downgraded_witness:
  "api_keys (demo_db (demo_row ''pro'' 1) Map.empty) ''key_abc'' = Some (demo_row ''pro'' 1)
   \<and> plan (demo_row ''pro'' 1) = Some ''pro''
   \<and> api_keys (run demo_config demo_verifier
        [CreateKey ''abc'' ''2024-01-02T00:00:00+00:00'',
         EnsureExists ''2024-01-02T00:00:00+00:00'' ''key_abc'',
         Get ''key_abc'',
         CheckAndCount ''2024-01-02'' ''key_abc'',
         UpgradeToPro ''key_abc'',
         HandlePaymentEvent ''key_abc'' (Some ''good'')]
        (demo_db (demo_row ''pro'' 1) Map.empty)) ''key_abc'' = Some (demo_row ''pro'' 1)
   \<and> api_keys (ensure_key_exists ''2024-01-02T00:00:00+00:00'' ''key_abc''
        (demo_db (demo_row ''pro'' 1) Map.empty)) ''key_abc'' = Some (demo_row ''pro'' 1)
   \<and> api_keys (snd (create_api_key ''abc'' ''2024-01-02T00:00:00+00:00''
        (demo_db (demo_row ''pro'' 1) Map.empty))) ''key_abc'' = Some (demo_row ''pro'' 1)"
  (is "?a \<and> ?b \<and> ?c \<and> ?d \<and> ?e")
proof -
  let ?s = "demo_db (demo_row ''pro'' 1) Map.empty"
  let ?xs = "[CreateKey ''abc'' ''2024-01-02T00:00:00+00:00'',
         EnsureExists ''2024-01-02T00:00:00+00:00'' ''key_abc'',
         Get ''key_abc'',
         CheckAndCount ''2024-01-02'' ''key_abc'',
         UpgradeToPro ''key_abc'',
         HandlePaymentEvent ''key_abc'' (Some ''good'')]"
  have a: ?a by (simp add: demo_db_def)
  have b: ?b by (simp add: demo_row_def)
  have up: "demo_row ''pro'' 1\<lparr>plan := Some ''pro'', is_active := Some 1\<rparr> = demo_row ''pro'' 1"
    by (simp add: demo_row_def)
  note t = plan_never_downgraded [of ?s "''key_abc''" "demo_row ''pro'' 1" demo_config
      demo_verifier ?xs "''2024-01-02T00:00:00+00:00''" "''key_abc''" "''abc''"]
  from t a have de: "?d \<and> ?e" by blast
  have c: ?c
    by (simp add: create_api_key_def ensure_key_exists_def require_active_and_rate_limit_def
        get_key_row_def increment_usage_eq upgrade_api_key_to_pro_def stripe_webhook_def
        metadata_api_key_def demo_db_def demo_row_def demo_config_def demo_verifier_def
        demo_event_def get_limit_for_plan_def plan_or_free_def count_of_def Let_def)
  from a b c de show ?thesis by blast
qed

subsection \<open>Days and plans in the quota check\<close>

lemma increment_other:
  "(k', d') \<noteq> (k, d) \<Longrightarrow>
     usage_counters (snd (increment_usage d k s)) (k', d') = usage_counters s (k', d')"
  by (auto simp: increment_usage_eq)

text \<open>The operations keep every stored count at 1 or more, so a row whose count equals
  the limit, as in claim C9, is a row under a limit of at least 1.\<close>

lemma counts_positive_step: "counts_positive s \<Longrightarrow> counts_positive (step cfg ce x s)"
proof (cases x)
  case (CheckAndCount day k)
  assume "counts_positive s"
  have "0 \<le> count_of s k day"
  proof (cases "usage_counters s (k, day)")
    case None
    then show ?thesis by (simp add: count_of_def)
  next
    case (Some c)
    with \<open>counts_positive s\<close> have "1 \<le> c" unfolding counts_positive_def by blast
    with Some show ?thesis by (simp add: count_of_def)
  qed
  with \<open>counts_positive s\<close> show ?thesis
    by (auto simp: CheckAndCount counts_positive_def require_active_and_rate_limit_def
        get_key_row_def increment_usage_eq Let_def split: option.splits if_splits)
qed (auto simp: counts_positive_def create_api_key_def ensure_key_exists_def
      upgrade_api_key_to_pro_def stripe_webhook_def Let_def split: option.splits)

lemma counts_positive_run: "counts_positive s \<Longrightarrow> counts_positive (run cfg ce xs s)"
  by (induction xs arbitrary: s) (simp_all add: counts_positive_step)

lemma counts_positive_reachable: "counts_positive (run cfg ce xs init_db)"
  by (rule counts_positive_run) (simp add: counts_positive_def init_db_def)

text \<open>
  Claim C9. Take an active key whose row for day \<open>d\<close> holds a count \<open>c\<close> equal to the
  limit of its plan (a stored count is at least 1), and a day \<open>d'\<close> with no row for the
  key yet. The quota check on \<open>d'\<close> succeeds with \<open>used_today\<close> 1, writes the row
  (key, \<open>d'\<close>) with count 1 and leaves the row of day \<open>d\<close> at \<open>c\<close>. In general the
  value an increment returns is read from the row of its own (key, day) alone, and
  neither the increment nor the quota check changes the row of any other pair.
\<close>

theorem new_day_counts_from_one:
  "(api_keys s k = Some r \<and> is_active r = Some 1
      \<and> usage_counters s (k, d) = Some c \<and> 1 \<le> c
      \<and> c = get_limit_for_plan cfg (plan_or_free (plan r))
      \<and> usage_counters s (k, d') = None
    \<longrightarrow> require_active_and_rate_limit cfg d' k s =
          (Inr \<lparr>meta_plan = plan_or_free (plan r), used_today = 1, limit_today = c\<rparr>,
           s\<lparr>usage_counters := (usage_counters s)((k, d') \<mapsto> 1)\<rparr>)
        \<and> usage_counters (snd (require_active_and_rate_limit cfg d' k s)) (k, d) = Some c)
   \<and> fst (increment_usage d' k s) = Inr (count_of s k d' + 1)
   \<and> ((k'', d'') \<noteq> (k, d') \<longrightarrow>
        usage_counters (snd (increment_usage d' k s)) (k'', d'') = usage_counters s (k'', d'')
      \<and> usage_counters (snd (require_active_and_rate_limit cfg d' k s)) (k'', d'')
          = usage_counters s (k'', d''))"
proof (intro conjI impI)
  assume h: "api_keys s k = Some r \<and> is_active r = Some 1
      \<and> usage_counters s (k, d) = Some c \<and> 1 \<le> c
      \<and> c = get_limit_for_plan cfg (plan_or_free (plan r))
      \<and> usage_counters s (k, d') = None"
  then have z: "count_of s k d' = 0" by (simp add: count_of_def)
  from h have ne: "d \<noteq> d'" by auto
  from h show "require_active_and_rate_limit cfg d' k s =
          (Inr \<lparr>meta_plan = plan_or_free (plan r), used_today = 1, limit_today = c\<rparr>,
           s\<lparr>usage_counters := (usage_counters s)((k, d') \<mapsto> 1)\<rparr>)"
    by (simp add: require_active_eq [of s k r] z outcome_def)
  then show "usage_counters (snd (require_active_and_rate_limit cfg d' k s)) (k, d) = Some c"
    using h ne by simp
next
  show "fst (increment_usage d' k s) = Inr (count_of s k d' + 1)"
    by (simp add: increment_usage_eq)
next
  assume "(k'', d'') \<noteq> (k, d')"
  then show "usage_counters (snd (increment_usage d' k s)) (k'', d'') = usage_counters s (k'', d'')"
    by (rule increment_other)
next
  assume "(k'', d'') \<noteq> (k, d')"
  then show "usage_counters (snd (require_active_and_rate_limit cfg d' k s)) (k'', d'')
          = usage_counters s (k'', d'')"
    by (auto simp: require_active_and_rate_limit_def get_key_row_def increment_usage_eq Let_def
        split: option.splits)
qed

theorem new_day_counts_from_one_witness:
  "require_active_and_rate_limit demo_config ''2024-01-02'' ''key_abc''
      (demo_db (demo_row ''free'' 1) [(''key_abc'', ''2024-01-01'') \<mapsto> 25])
    = (Inr \<lparr>meta_plan = ''free'', used_today = 1, limit_today = 25\<rparr>,
       demo_db (demo_row ''free'' 1)
         [(''key_abc'', ''2024-01-01'') \<mapsto> 25, (''key_abc'', ''2024-01-02'') \<mapsto> 1])
   \<and> usage_counters (snd (require_active_and_rate_limit demo_config ''2024-01-02'' ''key_abc''
        (demo_db (demo_row ''free'' 1) [(''key_abc'', ''2024-01-01'') \<mapsto> 25])))
        (''key_abc'', ''2024-01-01'') = Some 25"
  using new_day_counts_from_one
    [of "demo_db (demo_row ''free'' 1) [(''key_abc'', ''2024-01-01'') \<mapsto> 25]"
      "''key_abc''" "demo_row ''free'' 1" "''2024-01-01''" 25 demo_config "''2024-01-02''"
      "''key_abc''" "''2024-01-01''"]
  by (simp add: demo_db_def demo_row_def demo_config_def plan_or_free_def get_limit_for_plan_def)

text \<open>
  Claim C10. For an active key whose stored plan is anything but the exact string
  \<open>pro\<close> (NULL and the empty string included), the quota check takes
  \<open>FREE_LIMIT_PER_DAY\<close> as the limit and raises nothing for the plan: it answers with
  the free limit, or with the 429 against the free limit. The plan it reports is \<open>free\<close>
  for NULL and for the empty string, and the stored string otherwise.
\<close>

theorem unrecognised_plan_gets_free_limit:
  assumes "api_keys s k = Some r" and "is_active r = Some 1" and "plan r \<noteq> Some ''pro''"
  shows "get_limit_for_plan cfg (plan_or_free (plan r)) = FREE_LIMIT_PER_DAY cfg
     \<and> fst (require_active_and_rate_limit cfg day k s) =
         (if count_of s k day + 1 > FREE_LIMIT_PER_DAY cfg
          then Inl (HTTPException 429 (limit_message (count_of s k day + 1) (FREE_LIMIT_PER_DAY cfg)))
          else Inr \<lparr>meta_plan = plan_or_free (plan r), used_today = count_of s k day + 1,
                    limit_today = FREE_LIMIT_PER_DAY cfg\<rparr>)
     \<and> (plan r = None \<or> plan r = Some [] \<longrightarrow> plan_or_free (plan r) = ''free'')
     \<and> (\<forall>v. plan r = Some v \<and> v \<noteq> [] \<longrightarrow> plan_or_free (plan r) = v)"
proof -
  have l: "get_limit_for_plan cfg (plan_or_free (plan r)) = FREE_LIMIT_PER_DAY cfg"
    using assms(3) by (auto simp: get_limit_for_plan_def plan_or_free_def split: option.splits)
  have res: "fst (require_active_and_rate_limit cfg day k s) =
      outcome (plan_or_free (plan r)) (FREE_LIMIT_PER_DAY cfg) (count_of s k day + 1)"
    by (simp add: require_active_eq [OF assms(1,2)] l)
  have p: "plan r = None \<or> plan r = Some [] \<longrightarrow> plan_or_free (plan r) = ''free''"
    by (auto simp: plan_or_free_def)
  have q: "\<forall>v. plan r = Some v \<and> v \<noteq> [] \<longrightarrow> plan_or_free (plan r) = v"
    by (auto simp: plan_or_free_def)
  from l res p q show ?thesis unfolding outcome_def by blast
qed

theorem unrecognised_plan_gets_free_limit_witness:
  "fst (require_active_and_rate_limit demo_config ''2024-01-01'' ''key_abc''
      (demo_db \<lparr>plan = None, is_active = Some 1, created_at = None\<rparr> Map.empty))
     = Inr \<lparr>meta_plan = ''free'', used_today = 1, limit_today = 25\<rparr>
   \<and> fst (require_active_and_rate_limit demo_config ''2024-01-01'' ''key_abc''
      (demo_db (demo_row [] 1) Map.empty))
     = Inr \<lparr>meta_plan = ''free'', used_today = 1, limit_today = 25\<rparr>
   \<and> fst (require_active_and_rate_limit demo_config ''2024-01-01'' ''key_abc''
      (demo_db (demo_row ''PRO'' 1) Map.empty))
     = Inr \<lparr>meta_plan = ''PRO'', used_today = 1, limit_today = 25\<rparr>"
  using unrecognised_plan_gets_free_limit
      [of "demo_db \<lparr>plan = None, is_active = Some 1, created_at = None\<rparr> Map.empty"
        "''key_abc''" "\<lparr>plan = None, is_active = Some 1, created_at = None\<rparr>" demo_config
        "''2024-01-01''"]
    unrecognised_plan_gets_free_limit
      [of "demo_db (demo_row [] 1) Map.empty" "''key_abc''" "demo_row [] 1" demo_config
        "''2024-01-01''"]
    unrecognised_plan_gets_free_limit
      [of "demo_db (demo_row ''PRO'' 1) Map.empty" "''key_abc''" "demo_row ''PRO'' 1" demo_config
        "''2024-01-01''"]
  by (simp add: demo_db_def demo_row_def demo_config_def count_of_def)

end
